theory Spec2Isabelle
  imports Complex_Main "HOL-Library.AList" "HOL-Library.Product_Lexorder"
begin

section \<open>CarbonLensAI: the emissions calculator and scenario generator of app.py\<close>

text \<open>
  The program is one Python module, \<^verbatim>\<open>app.py\<close>: the constant tables \<^verbatim>\<open>FACTORS\<close>,
  \<^verbatim>\<open>ENERGY_COSTS\<close> and \<^verbatim>\<open>CARBON_PRICE\<close>, the coercion \<^verbatim>\<open>safe_float\<close>, the scenario
  generator \<^verbatim>\<open>calculate_scenarios\<close> and the request handler \<^verbatim>\<open>index\<close>.

  Numbers. Python's \<^verbatim>\<open>float\<close> is modelled by \<^typ>\<open>real\<close>: every arithmetic operation is
  exact, and there is neither NaN nor an infinity. What the embedding keeps of Python's
  arithmetic is its control flow: \<^verbatim>\<open>x / y\<close> raises \<^verbatim>\<open>ZeroDivisionError\<close> when \<^verbatim>\<open>y\<close> is
  zero, \<^verbatim>\<open>round(x, n)\<close> rounds half to even, \<^verbatim>\<open>int(x)\<close> truncates towards zero.
\<close>

subsection \<open>Exceptions\<close>

datatype py_error =
  ValueError | TypeError | ZeroDivisionError | KeyError | IndexError | OverflowError

definition bind_err :: "'e + 'a \<Rightarrow> ('a \<Rightarrow> 'e + 'b) \<Rightarrow> 'e + 'b" where
  "bind_err m f = (case m of Inl e \<Rightarrow> Inl e | Inr x \<Rightarrow> f x)"

fun map_err :: "('a \<Rightarrow> 'e + 'b) \<Rightarrow> 'a list \<Rightarrow> 'e + 'b list" where
  "map_err f [] = Inr []"
| "map_err f (x # xs) =
     (case f x of Inl e \<Rightarrow> Inl e
      | Inr y \<Rightarrow> (case map_err f xs of Inl e \<Rightarrow> Inl e | Inr ys \<Rightarrow> Inr (y # ys)))"

subsection \<open>Python's numeric built-ins\<close>

text \<open>\<^verbatim>\<open>x / y\<close> on floats.\<close>

definition py_div :: "real \<Rightarrow> real \<Rightarrow> py_error + real" where
  "py_div x y = (if y = 0 then Inl ZeroDivisionError else Inr (x / y))"

text \<open>Rounding to the nearest integer, a tie going to the even neighbour.\<close>

definition round_half_even :: "real \<Rightarrow> int" where
  "round_half_even x =
     (let f = \<lfloor>x\<rfloor>; d = x - of_int f
      in if d < 1 / 2 then f
         else if 1 / 2 < d then f + 1
         else if even f then f else f + 1)"

text \<open>\<^verbatim>\<open>round(x, n)\<close> for \<^verbatim>\<open>n \<ge> 0\<close>.\<close>

definition py_round :: "real \<Rightarrow> nat \<Rightarrow> real" where
  "py_round x n = of_int (round_half_even (x * 10 ^ n)) / 10 ^ n"

text \<open>\<^verbatim>\<open>int(x)\<close>: truncation towards zero.\<close>

definition py_int :: "real \<Rightarrow> int" where
  "py_int x = (if 0 \<le> x then \<lfloor>x\<rfloor> else \<lceil>x\<rceil>)"

text \<open>\<^verbatim>\<open>str(n)\<close> for a natural number, and for an integer.\<close>

fun str_nat :: "nat \<Rightarrow> string" where
  "str_nat n =
     (if n < 10 then [''0123456789'' ! n]
      else str_nat (n div 10) @ [''0123456789'' ! (n mod 10)])"

declare str_nat.simps [simp del]

definition str_int :: "int \<Rightarrow> string" where
  "str_int i = (if i < 0 then ''-'' @ str_nat (nat (- i)) else str_nat (nat i))"

text \<open>
  The format specification \<^verbatim>\<open>{x:.df}\<close>: the magnitude rounded (half to even) to \<open>d\<close>
  decimals, at least one digit before the point, and the sign of \<open>x\<close> kept even when the
  digits are all zero (\<^verbatim>\<open>f'{-0.3:.0f}'\<close> is \<^verbatim>\<open>'-0'\<close>).
\<close>

definition format_f :: "nat \<Rightarrow> real \<Rightarrow> string" where
  "format_f d x =
     (let ds = str_nat (nat (round_half_even (\<bar>x\<bar> * 10 ^ d)));
          ds' = replicate (Suc d - length ds) CHR ''0'' @ ds;
          body = (if d = 0 then ds'
                  else take (length ds' - d) ds' @ ''.'' @ drop (length ds' - d) ds')
      in (if x < 0 then ''-'' else []) @ body)"

subsection \<open>The constant tables\<close>

text \<open>Emission factors, tCO2e per unit.\<close>

definition FACTORS :: "(string \<times> real) list" where
  "FACTORS =
     [(''diesel'', 0.00268), (''petrol'', 0.00231), (''natural_gas'', 0.00202),
      (''coal'', 2.86), (''lpg'', 0.00151), (''electricity'', 0.00071),
      (''refrigerant_r22'', 1.810), (''refrigerant_r410a'', 2.088),
      (''refrigerant_r134a'', 1.430),
      (''steel'', 1.85), (''cement'', 0.90), (''aluminum'', 12.7),
      (''plastic'', 2.70), (''paper'', 0.94), (''glass'', 0.85),
      (''logistics_truck'', 0.00012), (''logistics_ship'', 0.00004),
      (''logistics_air'', 0.00060),
      (''waste_landfill'', 0.50), (''waste_recycled'', 0.10)]"

text \<open>Energy costs, INR per unit.\<close>

definition ENERGY_COSTS :: "(string \<times> real) list" where
  "ENERGY_COSTS =
     [(''electricity'', 8.5), (''diesel'', 95), (''petrol'', 105),
      (''natural_gas'', 45), (''coal'', 8000), (''lpg'', 85)]"

definition CARBON_PRICE :: real where
  "CARBON_PRICE = 2500"

text \<open>
  \<^verbatim>\<open>FACTORS[k]\<close> and \<^verbatim>\<open>ENERGY_COSTS[k]\<close>. The program subscripts the two tables with
  literal keys only, each of them present (lemmas \<open>factor_simps\<close>, \<open>cost_simps\<close>), so
  the \<^verbatim>\<open>KeyError\<close> of a missing key is never reached.
\<close>

definition factor :: "string \<Rightarrow> real" where
  "factor k = the (map_of FACTORS k)"

definition energy_cost :: "string \<Rightarrow> real" where
  "energy_cost k = the (map_of ENERGY_COSTS k)"

subsection \<open>The activity data\<close>

text \<open>The dictionary \<^verbatim>\<open>data\<close> built by \<^verbatim>\<open>index\<close>: a fixed set of keys, each a float.\<close>

record activity_input =
  diesel :: real
  petrol :: real
  natural_gas :: real
  coal :: real
  lpg :: real
  electricity :: real
  renewable :: real
  refrigerant_r22 :: real
  refrigerant_r410a :: real
  refrigerant_r134a :: real
  steel :: real
  cement :: real
  aluminum :: real
  plastic :: real
  paper :: real
  glass :: real
  logistics_truck :: real
  logistics_ship :: real
  logistics_air :: real
  waste_landfill :: real
  waste_recycled :: real
  production :: real

text \<open>The input with every field 0 and production 1 (the defaults of the form).\<close>

definition zero_input :: activity_input where
  "zero_input =
     \<lparr>diesel = 0, petrol = 0, natural_gas = 0, coal = 0, lpg = 0, electricity = 0,
      renewable = 0, refrigerant_r22 = 0, refrigerant_r410a = 0, refrigerant_r134a = 0,
      steel = 0, cement = 0, aluminum = 0, plastic = 0, paper = 0, glass = 0,
      logistics_truck = 0, logistics_ship = 0, logistics_air = 0,
      waste_landfill = 0, waste_recycled = 0, production = 1\<rparr>"

subsection \<open>Input coercion\<close>

text \<open>
  \<^verbatim>\<open>safe_float(value, default)\<close>. A form value is absent (\<open>None\<close>) or a string. Python's
  built-in \<^verbatim>\<open>float\<close> is not code of the program and is a parameter \<open>py_float\<close>: it
  returns the number a string denotes or raises. The handler catches \<^verbatim>\<open>ValueError\<close>
  and \<^verbatim>\<open>TypeError\<close>; any other exception would propagate.
\<close>

definition safe_float :: "(string \<Rightarrow> py_error + real) \<Rightarrow> string option \<Rightarrow> real \<Rightarrow> py_error + real" where
  "safe_float py_float v dflt =
     (case v of
        None \<Rightarrow> Inr dflt
      | Some s \<Rightarrow>
          if s = [] then Inr dflt
          else (case py_float s of
                  Inr x \<Rightarrow> Inr x
                | Inl e \<Rightarrow> if e = ValueError \<or> e = TypeError then Inr dflt else Inl e))"

text \<open>
  The dictionary \<^verbatim>\<open>data\<close> of \<^verbatim>\<open>index\<close>: one \<^verbatim>\<open>safe_float(request.form.get(k), dflt)\<close>
  per field, in the order of the source; \<^verbatim>\<open>request.form.get\<close> is \<open>None\<close> on a missing key.
\<close>

definition read_form :: "(string \<Rightarrow> py_error + real) \<Rightarrow> (string \<rightharpoonup> string) \<Rightarrow> py_error + activity_input" where
  "read_form py_float form =
     bind_err (safe_float py_float (form ''diesel'') 0) (\<lambda>v1.
     bind_err (safe_float py_float (form ''petrol'') 0) (\<lambda>v2.
     bind_err (safe_float py_float (form ''natural_gas'') 0) (\<lambda>v3.
     bind_err (safe_float py_float (form ''coal'') 0) (\<lambda>v4.
     bind_err (safe_float py_float (form ''lpg'') 0) (\<lambda>v5.
     bind_err (safe_float py_float (form ''electricity'') 0) (\<lambda>v6.
     bind_err (safe_float py_float (form ''renewable'') 0) (\<lambda>v7.
     bind_err (safe_float py_float (form ''refrigerant_r22'') 0) (\<lambda>v8.
     bind_err (safe_float py_float (form ''refrigerant_r410a'') 0) (\<lambda>v9.
     bind_err (safe_float py_float (form ''refrigerant_r134a'') 0) (\<lambda>v10.
     bind_err (safe_float py_float (form ''steel'') 0) (\<lambda>v11.
     bind_err (safe_float py_float (form ''cement'') 0) (\<lambda>v12.
     bind_err (safe_float py_float (form ''aluminum'') 0) (\<lambda>v13.
     bind_err (safe_float py_float (form ''plastic'') 0) (\<lambda>v14.
     bind_err (safe_float py_float (form ''paper'') 0) (\<lambda>v15.
     bind_err (safe_float py_float (form ''glass'') 0) (\<lambda>v16.
     bind_err (safe_float py_float (form ''logistics_truck'') 0) (\<lambda>v17.
     bind_err (safe_float py_float (form ''logistics_ship'') 0) (\<lambda>v18.
     bind_err (safe_float py_float (form ''logistics_air'') 0) (\<lambda>v19.
     bind_err (safe_float py_float (form ''waste_landfill'') 0) (\<lambda>v20.
     bind_err (safe_float py_float (form ''waste_recycled'') 0) (\<lambda>v21.
     bind_err (safe_float py_float (form ''production'') 1) (\<lambda>v22.
     Inr \<lparr>diesel = v1, petrol = v2, natural_gas = v3, coal = v4, lpg = v5,
          electricity = v6, renewable = v7, refrigerant_r22 = v8,
          refrigerant_r410a = v9, refrigerant_r134a = v10,
          steel = v11, cement = v12, aluminum = v13, plastic = v14, paper = v15,
          glass = v16, logistics_truck = v17, logistics_ship = v18,
          logistics_air = v19, waste_landfill = v20, waste_recycled = v21,
          production = v22\<rparr>))))))))))))))))))))))"

subsection \<open>Scopes 1 to 3\<close>

text \<open>
  The three dictionaries of \<^verbatim>\<open>index\<close>, as association lists in insertion order (the
  order in which \<^verbatim>\<open>by_source\<close> and the hotspots are built), and their totals.
\<close>

definition scope1 :: "activity_input \<Rightarrow> (string \<times> real) list" where
  "scope1 d =
     [(''Diesel'', diesel d * factor ''diesel''),
      (''Petrol'', petrol d * factor ''petrol''),
      (''Natural Gas'', natural_gas d * factor ''natural_gas''),
      (''Coal'', coal d * factor ''coal''),
      (''LPG'', lpg d * factor ''lpg''),
      (''Refrigerants'',
         refrigerant_r22 d * factor ''refrigerant_r22''
         + refrigerant_r410a d * factor ''refrigerant_r410a''
         + refrigerant_r134a d * factor ''refrigerant_r134a'')]"

definition scope1_total :: "activity_input \<Rightarrow> real" where
  "scope1_total d = sum_list (map snd (scope1 d))"

definition grid_electricity :: "activity_input \<Rightarrow> real" where
  "grid_electricity d = electricity d * (1 - renewable d / 100)"

definition scope2 :: "activity_input \<Rightarrow> (string \<times> real) list" where
  "scope2 d =
     [(''Grid Electricity'', grid_electricity d * factor ''electricity''),
      (''Renewable'', 0)]"

text \<open>\<^verbatim>\<open>scope2_total = scope2['Grid Electricity']\<close>.\<close>

definition scope2_total :: "activity_input \<Rightarrow> real" where
  "scope2_total d = grid_electricity d * factor ''electricity''"

definition scope3 :: "activity_input \<Rightarrow> (string \<times> real) list" where
  "scope3 d =
     [(''Raw Materials'',
         steel d * factor ''steel'' + cement d * factor ''cement''
         + aluminum d * factor ''aluminum'' + plastic d * factor ''plastic''
         + paper d * factor ''paper'' + glass d * factor ''glass''),
      (''Logistics'',
         logistics_truck d * factor ''logistics_truck''
         + logistics_ship d * factor ''logistics_ship''
         + logistics_air d * factor ''logistics_air''),
      (''Waste'',
         waste_landfill d * factor ''waste_landfill''
         + waste_recycled d * factor ''waste_recycled'')]"

definition scope3_total :: "activity_input \<Rightarrow> real" where
  "scope3_total d = sum_list (map snd (scope3 d))"

definition total :: "activity_input \<Rightarrow> real" where
  "total d = scope1_total d + scope2_total d + scope3_total d"

subsection \<open>Scenarios\<close>

text \<open>
  A scenario is the dictionary appended by \<^verbatim>\<open>calculate_scenarios\<close>. The key
  \<^verbatim>\<open>is_combined\<close> exists in the combined scenario only: \<open>None\<close> is its absence.
\<close>

record scenario =
  name :: string
  investment :: real
  annual_savings :: real
  carbon_reduction :: real
  payback_years :: real
  roi_percent :: real
  priority :: string
  is_combined :: "bool option"
  description :: string

text \<open>\<^verbatim>\<open>x.get('is_combined', False)\<close>, and the truth value of \<^verbatim>\<open>s.get('is_combined')\<close>.\<close>

definition get_is_combined :: "scenario \<Rightarrow> bool" where
  "get_is_combined s = (case is_combined s of None \<Rightarrow> False | Some b \<Rightarrow> b)"

paragraph \<open>Scenario 1: Solar PV\<close>

text \<open>
  The local variables of each block are functions of \<^verbatim>\<open>data\<close> under the names the
  source gives them. A division written \<^verbatim>\<open>a / b if b > 0 else 0\<close> is evaluated under
  its guard only, so it is the division of \<^typ>\<open>real\<close> there.
\<close>

definition solar_offset_pct :: int where
  "solar_offset_pct = 40"

definition solar_kwh :: "activity_input \<Rightarrow> real" where
  "solar_kwh d = electricity d * (of_int solar_offset_pct / 100)"

definition solar_emission_reduction :: "activity_input \<Rightarrow> real" where
  "solar_emission_reduction d = solar_kwh d * factor ''electricity''"

definition solar_energy_savings :: "activity_input \<Rightarrow> real" where
  "solar_energy_savings d = solar_kwh d * energy_cost ''electricity''"

definition system_size_kw :: "activity_input \<Rightarrow> real" where
  "system_size_kw d = solar_kwh d / 150"

definition solar_investment :: "activity_input \<Rightarrow> real" where
  "solar_investment d = system_size_kw d * 60000"

definition solar_roi :: "activity_input \<Rightarrow> real" where
  "solar_roi d =
     (if solar_investment d > 0 then solar_energy_savings d * 100 / solar_investment d else 0)"

definition solar_scenario :: "activity_input \<Rightarrow> scenario list" where
  "solar_scenario d =
     (if electricity d > 0 then
        [\<lparr>name = ''Rooftop Solar ('' @ str_int solar_offset_pct @ ''% offset)'',
          investment = py_round (solar_investment d) 2,
          annual_savings = py_round (solar_energy_savings d) 2,
          carbon_reduction = py_round (solar_emission_reduction d) 2,
          payback_years =
            (if solar_energy_savings d > 0
             then py_round (solar_investment d / solar_energy_savings d) 1 else 0),
          roi_percent = py_round (solar_roi d) 1,
          priority = (if solar_roi d > 15 then ''High'' else ''Medium''),
          is_combined = None,
          description = ''Install '' @ format_f 1 (system_size_kw d)
            @ '' kW solar PV to offset '' @ format_f 0 (solar_kwh d) @ '' kWh/month''\<rparr>]
      else [])"

paragraph \<open>Scenario 2: EV fleet transition\<close>

definition vehicle_fuel_cost :: "activity_input \<Rightarrow> real" where
  "vehicle_fuel_cost d = diesel d * energy_cost ''diesel'' + petrol d * energy_cost ''petrol''"

definition ev_transition_pct :: int where
  "ev_transition_pct = 30"

definition ev_fuel_savings :: "activity_input \<Rightarrow> real" where
  "ev_fuel_savings d = vehicle_fuel_cost d * of_int ev_transition_pct / 100 * 0.6"

definition ev_emission_reduction :: "activity_input \<Rightarrow> real" where
  "ev_emission_reduction d =
     (diesel d * factor ''diesel'' + petrol d * factor ''petrol'')
       * of_int ev_transition_pct / 100"

definition vehicles_to_replace :: "activity_input \<Rightarrow> int" where
  "vehicles_to_replace d = max 1 (py_int ((diesel d + petrol d) / 1000))"

definition ev_investment :: "activity_input \<Rightarrow> int" where
  "ev_investment d = vehicles_to_replace d * 1500000"

definition ev_roi :: "activity_input \<Rightarrow> real" where
  "ev_roi d =
     (if ev_investment d > 0 then ev_fuel_savings d * 100 / of_int (ev_investment d) else 0)"

definition ev_scenario :: "activity_input \<Rightarrow> scenario list" where
  "ev_scenario d =
     (if diesel d > 1000 \<or> petrol d > 500 then
        [\<lparr>name = ''EV Fleet ('' @ str_int ev_transition_pct @ ''% transition)'',
          investment = py_round (of_int (ev_investment d)) 2,
          annual_savings = py_round (ev_fuel_savings d) 2,
          carbon_reduction = py_round (ev_emission_reduction d) 2,
          payback_years =
            (if ev_fuel_savings d > 0
             then py_round (of_int (ev_investment d) / ev_fuel_savings d) 1 else 0),
          roi_percent = py_round (ev_roi d) 1,
          priority = (if ev_roi d > 12 then ''High'' else ''Medium''),
          is_combined = None,
          description = ''Replace '' @ str_int (vehicles_to_replace d)
            @ '' vehicles with EVs, save '' @ format_f 0 (ev_fuel_savings d)
            @ '' INR/year''\<rparr>]
      else [])"

paragraph \<open>Scenario 3: energy efficiency\<close>

definition efficiency_savings_pct :: int where
  "efficiency_savings_pct = 15"

definition kwh_saved :: "activity_input \<Rightarrow> real" where
  "kwh_saved d = electricity d * of_int efficiency_savings_pct / 100"

definition efficiency_emission_reduction :: "activity_input \<Rightarrow> real" where
  "efficiency_emission_reduction d = kwh_saved d * factor ''electricity''"

definition efficiency_cost_savings :: "activity_input \<Rightarrow> real" where
  "efficiency_cost_savings d = kwh_saved d * energy_cost ''electricity''"

definition efficiency_investment :: "activity_input \<Rightarrow> real" where
  "efficiency_investment d = electricity d * 0.5"

definition efficiency_roi :: "activity_input \<Rightarrow> real" where
  "efficiency_roi d =
     (if efficiency_investment d > 0
      then efficiency_cost_savings d * 100 / efficiency_investment d else 0)"

definition efficiency_scenario :: "activity_input \<Rightarrow> scenario list" where
  "efficiency_scenario d =
     (if electricity d > 0 then
        [\<lparr>name = ''Energy Efficiency ('' @ str_int efficiency_savings_pct @ ''% reduction)'',
          investment = py_round (efficiency_investment d) 2,
          annual_savings = py_round (efficiency_cost_savings d) 2,
          carbon_reduction = py_round (efficiency_emission_reduction d) 2,
          payback_years =
            (if efficiency_cost_savings d > 0
             then py_round (efficiency_investment d / efficiency_cost_savings d) 1 else 0),
          roi_percent = py_round (efficiency_roi d) 1,
          priority = (if efficiency_roi d > 20 then ''High'' else ''Medium''),
          is_combined = None,
          description = ''LED lighting, smart HVAC to save '' @ format_f 0 (kwh_saved d)
            @ '' kWh/month''\<rparr>]
      else [])"

paragraph \<open>Scenario 4: waste reduction and recycling\<close>

definition waste_reduction_pct :: int where
  "waste_reduction_pct = 50"

definition waste_diverted :: "activity_input \<Rightarrow> real" where
  "waste_diverted d = waste_landfill d * of_int waste_reduction_pct / 100"

definition waste_emission_reduction :: "activity_input \<Rightarrow> real" where
  "waste_emission_reduction d =
     waste_diverted d * (factor ''waste_landfill'' - factor ''waste_recycled'')"

definition waste_cost_savings :: "activity_input \<Rightarrow> real" where
  "waste_cost_savings d = waste_diverted d * 2000"

definition waste_investment :: "activity_input \<Rightarrow> real" where
  "waste_investment d = 300000 + waste_landfill d * 10000"

definition waste_roi :: "activity_input \<Rightarrow> real" where
  "waste_roi d =
     (if waste_investment d > 0 then waste_cost_savings d * 100 / waste_investment d else 0)"

definition waste_scenario :: "activity_input \<Rightarrow> scenario list" where
  "waste_scenario d =
     (if waste_landfill d > 0 then
        [\<lparr>name = ''Waste Diversion ('' @ str_int waste_reduction_pct @ ''% to recycling)'',
          investment = py_round (waste_investment d) 2,
          annual_savings = py_round (waste_cost_savings d) 2,
          carbon_reduction = py_round (waste_emission_reduction d) 2,
          payback_years =
            (if waste_cost_savings d > 0
             then py_round (waste_investment d / waste_cost_savings d) 1 else 0),
          roi_percent = py_round (waste_roi d) 1,
          priority = ''Medium'',
          is_combined = None,
          description = ''Divert '' @ format_f 1 (waste_diverted d)
            @ '' tonnes from landfill to recycling''\<rparr>]
      else [])"

paragraph \<open>Scenario 5: renewable energy procurement\<close>

definition target_renewable :: "activity_input \<Rightarrow> real" where
  "target_renewable d = min 50 (renewable d + 30)"

definition additional_renewable_pct :: "activity_input \<Rightarrow> real" where
  "additional_renewable_pct d = target_renewable d - renewable d"

definition additional_renewable_kwh :: "activity_input \<Rightarrow> real" where
  "additional_renewable_kwh d = electricity d * additional_renewable_pct d / 100"

definition renewable_emission_reduction :: "activity_input \<Rightarrow> real" where
  "renewable_emission_reduction d = additional_renewable_kwh d * factor ''electricity''"

definition green_premium :: "activity_input \<Rightarrow> real" where
  "green_premium d = additional_renewable_kwh d * 12 * 1.5"

definition renewable_carbon_savings :: "activity_input \<Rightarrow> real" where
  "renewable_carbon_savings d = renewable_emission_reduction d * CARBON_PRICE"

definition net_renewable_savings :: "activity_input \<Rightarrow> real" where
  "net_renewable_savings d = renewable_carbon_savings d - green_premium d"

definition renewable_scenario :: "activity_input \<Rightarrow> scenario list" where
  "renewable_scenario d =
     (if renewable d < 50 then
        [\<lparr>name = ''Green Energy Procurement ('' @ format_f 0 (target_renewable d)
            @ ''% renewable)'',
          investment = 0,
          annual_savings = py_round (net_renewable_savings d) 2,
          carbon_reduction = py_round (renewable_emission_reduction d) 2,
          payback_years = 0,
          roi_percent = (if net_renewable_savings d > 0 then 999 else 0),
          priority = (if net_renewable_savings d > 0 then ''High'' else ''Low''),
          is_combined = None,
          description = ''Switch to green tariffs, increase renewable from ''
            @ format_f 0 (renewable d) @ ''% to '' @ format_f 0 (target_renewable d)
            @ ''%''\<rparr>]
      else [])"

paragraph \<open>Scenario 6: material efficiency\<close>

text \<open>The block reads \<^verbatim>\<open>scope3['Raw Materials']\<close>, here the argument \<open>rm\<close>.\<close>

definition material_efficiency_pct :: int where
  "material_efficiency_pct = 10"

definition material_emission_reduction :: "real \<Rightarrow> real" where
  "material_emission_reduction rm = rm * of_int material_efficiency_pct / 100"

definition material_cost_savings :: "real \<Rightarrow> real" where
  "material_cost_savings rm = material_emission_reduction rm * 50000"

definition material_investment :: int where
  "material_investment = 500000"

definition material_roi :: "real \<Rightarrow> real" where
  "material_roi rm =
     (if material_investment > 0
      then material_cost_savings rm * 100 / of_int material_investment else 0)"

definition material_scenario :: "real \<Rightarrow> scenario list" where
  "material_scenario rm =
     (if rm > 10 then
        [\<lparr>name = ''Material Efficiency ('' @ str_int material_efficiency_pct
            @ ''% reduction)'',
          investment = py_round (of_int material_investment) 2,
          annual_savings = py_round (material_cost_savings rm) 2,
          carbon_reduction = py_round (material_emission_reduction rm) 2,
          payback_years =
            (if material_cost_savings rm > 0
             then py_round (of_int material_investment / material_cost_savings rm) 1
             else 0),
          roi_percent = py_round (material_roi rm) 1,
          priority = ''Medium'',
          is_combined = None,
          description = ''Optimize material use, reduce waste in production processes''\<rparr>]
      else [])"

paragraph \<open>The combined scenario and the final order\<close>

definition total_investment :: "scenario list \<Rightarrow> real" where
  "total_investment ss = sum_list (map investment (filter (\<lambda>s. investment s > 0) ss))"

definition total_savings :: "scenario list \<Rightarrow> real" where
  "total_savings ss = sum_list (map annual_savings ss)"

definition total_carbon_reduction :: "scenario list \<Rightarrow> real" where
  "total_carbon_reduction ss = sum_list (map carbon_reduction ss)"

definition combined_scenario :: "scenario list \<Rightarrow> scenario" where
  "combined_scenario ss =
     \<lparr>name = ''Combined Optimization (All Measures)'',
      investment = py_round (total_investment ss) 2,
      annual_savings = py_round (total_savings ss) 2,
      carbon_reduction = py_round (total_carbon_reduction ss) 2,
      payback_years =
        (if total_savings ss > 0
         then py_round (total_investment ss / total_savings ss) 1 else 0),
      roi_percent =
        (if total_investment ss > 0
         then py_round (total_savings ss * 100 / total_investment ss) 1 else 0),
      priority = ''Recommended'',
      is_combined = Some True,
      description = ''Implement all measures for maximum impact''\<rparr>"

text \<open>
  \<^verbatim>\<open>scenarios.sort(key=lambda x: (x.get('is_combined', False), -x['roi_percent']))\<close>:
  Python's sort is stable and ascending, and tuples compare lexicographically, with
  \<open>False < True\<close>. \<^const>\<open>sort_key\<close> is the stable insertion sort.
\<close>

definition sort_scenarios :: "scenario list \<Rightarrow> scenario list" where
  "sort_scenarios ss = sort_key (\<lambda>x. (get_is_combined x, - roi_percent x)) ss"

text \<open>The six blocks in the order of the source, before the combined scenario is appended.\<close>

definition individual_scenarios :: "activity_input \<Rightarrow> real \<Rightarrow> scenario list" where
  "individual_scenarios d rm =
     solar_scenario d @ ev_scenario d @ efficiency_scenario d @ waste_scenario d
       @ renewable_scenario d @ material_scenario rm"

text \<open>
  \<^verbatim>\<open>calculate_scenarios(data, scope1, scope2, scope3, total_emissions)\<close>. Of its four last
  arguments the body reads \<^verbatim>\<open>scope3['Raw Materials']\<close> only, a \<^verbatim>\<open>KeyError\<close> when the key
  is missing.
\<close>

definition calculate_scenarios ::
  "activity_input \<Rightarrow> (string \<times> real) list \<Rightarrow> (string \<times> real) list \<Rightarrow> (string \<times> real) list
     \<Rightarrow> real \<Rightarrow> py_error + scenario list" where
  "calculate_scenarios d s1 s2 s3 total_emissions =
     (case map_of s3 ''Raw Materials'' of
        None \<Rightarrow> Inl KeyError
      | Some rm \<Rightarrow>
          (let scenarios = individual_scenarios d rm
           in Inr (sort_scenarios (scenarios @ [combined_scenario scenarios]))))"

subsection \<open>The per-source breakdown\<close>

text \<open>
  \<^verbatim>\<open>m.update(other)\<close> on dictionaries kept in insertion order: a key already present
  keeps its place and takes the new value, a new key goes to the end.
\<close>

definition dict_update :: "('k \<times> 'v) list \<Rightarrow> ('k \<times> 'v) list \<Rightarrow> ('k \<times> 'v) list" where
  "dict_update m kvs = foldl (\<lambda>acc (k, v). AList.update k v acc) m kvs"

text \<open>The comprehension \<^verbatim>\<open>{k: round(v, 2) for k, v in scope.items() if v > 0}\<close>.\<close>

definition positive_rounded :: "(string \<times> real) list \<Rightarrow> (string \<times> real) list" where
  "positive_rounded sc =
     dict_update [] (map (\<lambda>(k, v). (k, py_round v 2)) (filter (\<lambda>(k, v). v > 0) sc))"

definition by_source :: "activity_input \<Rightarrow> (string \<times> real) list" where
  "by_source d =
     dict_update
       (dict_update (dict_update [] (positive_rounded (scope1 d)))
          (positive_rounded (scope2 d)))
       (positive_rounded (scope3 d))"

definition carbon_costs_by_source :: "activity_input \<Rightarrow> (string \<times> real) list" where
  "carbon_costs_by_source d =
     dict_update [] (map (\<lambda>(k, v). (k, py_round (v * CARBON_PRICE) 2)) (by_source d))"

definition intensity :: "activity_input \<Rightarrow> real" where
  "intensity d = (if production d > 0 then total d / production d else 0)"

definition carbon_cost :: "activity_input \<Rightarrow> real" where
  "carbon_cost d = total d * CARBON_PRICE"

subsection \<open>Hotspots\<close>

record hotspot =
  source :: string
  emission :: real
  percent :: real

text \<open>
  One entry of the list comprehension: \<^verbatim>\<open>v/total*100\<close> is an unguarded division, and
  the comprehension stops at the first entry that raises.
\<close>

definition hotspot_entry :: "real \<Rightarrow> string \<times> real \<Rightarrow> py_error + hotspot" where
  "hotspot_entry tot kv =
     bind_err (py_div (snd kv) tot)
       (\<lambda>q. Inr \<lparr>source = fst kv, emission = snd kv, percent = q * 100\<rparr>)"

text \<open>
  \<^verbatim>\<open>sorted(..., key=lambda x: x['emission'], reverse=True)[:5]\<close>: with \<^verbatim>\<open>reverse=True\<close>
  the sort is still stable, which is the stable ascending sort on the negated key.
\<close>

definition hotspots :: "activity_input \<Rightarrow> py_error + hotspot list" where
  "hotspots d =
     bind_err (map_err (hotspot_entry (total d)) (by_source d))
       (\<lambda>hs. Inr (take 5 (sort_key (\<lambda>x. - emission x) hs)))"

subsection \<open>The request handler\<close>

record result =
  res_scope1 :: real
  res_scope2 :: real
  res_scope3 :: real
  res_total :: real
  res_intensity :: real
  res_renewable :: real
  res_production :: real
  res_by_scope :: "real list"
  res_by_source :: "(string \<times> real) list"
  res_carbon_costs_by_source :: "(string \<times> real) list"
  res_carbon_cost :: real
  res_scenarios :: "scenario list"
  res_ten_year_savings :: real
  res_ten_year_reduction :: real
  res_hotspots :: "hotspot list"

text \<open>\<^verbatim>\<open>[s for s in scenarios if s.get('is_combined')][0]\<close>.\<close>

definition find_combined :: "scenario list \<Rightarrow> py_error + scenario" where
  "find_combined ss =
     (case filter get_is_combined ss of [] \<Rightarrow> Inl IndexError | c # _ \<Rightarrow> Inr c)"

text \<open>The body of \<^verbatim>\<open>index\<close> for a POST request, from the dictionary \<^verbatim>\<open>data\<close> on.\<close>

definition index_post :: "activity_input \<Rightarrow> py_error + result" where
  "index_post d =
     bind_err (calculate_scenarios d (scope1 d) (scope2 d) (scope3 d) (total d)) (\<lambda>scenarios.
     bind_err (find_combined scenarios) (\<lambda>c.
     bind_err (hotspots d) (\<lambda>hs.
     Inr \<lparr>res_scope1 = py_round (scope1_total d) 2,
          res_scope2 = py_round (scope2_total d) 2,
          res_scope3 = py_round (scope3_total d) 2,
          res_total = py_round (total d) 2,
          res_intensity = py_round (intensity d) 4,
          res_renewable = renewable d,
          res_production = production d,
          res_by_scope = [py_round (scope1_total d) 2, py_round (scope2_total d) 2,
                          py_round (scope3_total d) 2],
          res_by_source = by_source d,
          res_carbon_costs_by_source = carbon_costs_by_source d,
          res_carbon_cost = py_round (carbon_cost d) 2,
          res_scenarios = scenarios,
          res_ten_year_savings = py_round (annual_savings c * 10) 2,
          res_ten_year_reduction = py_round (carbon_reduction c * 10) 2,
          res_hotspots = hs\<rparr>)))"

text \<open>
  \<^verbatim>\<open>index\<close>: \<open>None\<close> is the \<^verbatim>\<open>result = None\<close> of a GET request. Rendering the template
  is outside the model.
\<close>

definition index :: "(string \<Rightarrow> py_error + real) \<Rightarrow> string \<Rightarrow> (string \<rightharpoonup> string) \<Rightarrow> py_error + result option" where
  "index py_float meth form =
     (if meth = ''POST'' then
        bind_err (read_form py_float form) (\<lambda>d.
        bind_err (index_post d) (\<lambda>r. Inr (Some r)))
      else Inr None)"

text \<open>The scenario list of a request: \<^verbatim>\<open>calculate_scenarios\<close> as \<^verbatim>\<open>index\<close> calls it.\<close>

definition scenarios_of :: "activity_input \<Rightarrow> py_error + scenario list" where
  "scenarios_of d = calculate_scenarios d (scope1 d) (scope2 d) (scope3 d) (total d)"

subsection \<open>Inputs and predicates of the statements\<close>

text \<open>The data model's range for an activity input: every field is non-negative.\<close>

definition nonneg_input :: "activity_input \<Rightarrow> bool" where
  "nonneg_input d \<longleftrightarrow>
     0 \<le> diesel d \<and> 0 \<le> petrol d \<and> 0 \<le> natural_gas d \<and> 0 \<le> coal d \<and> 0 \<le> lpg d
     \<and> 0 \<le> electricity d \<and> 0 \<le> renewable d \<and> 0 \<le> refrigerant_r22 d
     \<and> 0 \<le> refrigerant_r410a d \<and> 0 \<le> refrigerant_r134a d \<and> 0 \<le> steel d
     \<and> 0 \<le> cement d \<and> 0 \<le> aluminum d \<and> 0 \<le> plastic d \<and> 0 \<le> paper d \<and> 0 \<le> glass d
     \<and> 0 \<le> logistics_truck d \<and> 0 \<le> logistics_ship d \<and> 0 \<le> logistics_air d
     \<and> 0 \<le> waste_landfill d \<and> 0 \<le> waste_recycled d \<and> 0 \<le> production d"

text \<open>The value \<^verbatim>\<open>scope3['Raw Materials']\<close> that \<^verbatim>\<open>index\<close> hands to the scenario generator.\<close>

definition scope3_raw_materials :: "activity_input \<Rightarrow> real" where
  "scope3_raw_materials d = the (map_of (scope3 d) ''Raw Materials'')"

text \<open>A scenario of the list carries the label \<open>nm\<close>: its name starts with it.\<close>

definition emitted :: "string \<Rightarrow> scenario list \<Rightarrow> bool" where
  "emitted nm ss = list_ex (\<lambda>s. take (length nm) (name s) = nm) ss"



text \<open>The inputs at which the statements are evaluated.\<close>

definition electricity_only_input :: activity_input where
  "electricity_only_input = zero_input\<lparr>electricity := 10000\<rparr>"

definition over_renewable_input :: activity_input where
  "over_renewable_input = zero_input\<lparr>electricity := 100, renewable := 200\<rparr>"

definition small_diesel_input :: activity_input where
  "small_diesel_input = zero_input\<lparr>diesel := 1\<rparr>"



definition cancelling_input :: activity_input where
  "cancelling_input = zero_input\<lparr>diesel := 71, electricity := 268, renewable := 200\<rparr>"

text \<open>
  A stand-in for Python's \<^verbatim>\<open>float\<close> at concrete inputs: it reads an unsigned decimal
  integer and raises \<^verbatim>\<open>ValueError\<close> on every other string.
\<close>

fun digits_value :: "string \<Rightarrow> nat \<Rightarrow> nat option" where
  "digits_value [] acc = Some acc"
| "digits_value (c # cs) acc =
     (if (48::nat) \<le> of_char c \<and> (of_char c :: nat) \<le> 57
      then digits_value cs (10 * acc + (of_char c - 48)) else None)"

definition float_of_digits :: "string \<Rightarrow> py_error + real" where
  "float_of_digits s =
     (case (if s = [] then None else digits_value s 0) of
        None \<Rightarrow> Inl ValueError
      | Some n \<Rightarrow> Inr (of_nat n))"

section \<open>Auxiliary facts\<close>

subsection \<open>The tables\<close>

lemma factor_simps:
  "factor ''diesel'' = 0.00268" "factor ''petrol'' = 0.00231" "factor ''natural_gas'' = 0.00202"
  "factor ''coal'' = 2.86" "factor ''lpg'' = 0.00151" "factor ''electricity'' = 0.00071"
  "factor ''refrigerant_r22'' = 1.810" "factor ''refrigerant_r410a'' = 2.088"
  "factor ''refrigerant_r134a'' = 1.430" "factor ''steel'' = 1.85" "factor ''cement'' = 0.90"
  "factor ''aluminum'' = 12.7" "factor ''plastic'' = 2.70" "factor ''paper'' = 0.94"
  "factor ''glass'' = 0.85" "factor ''logistics_truck'' = 0.00012"
  "factor ''logistics_ship'' = 0.00004" "factor ''logistics_air'' = 0.00060"
  "factor ''waste_landfill'' = 0.50" "factor ''waste_recycled'' = 0.10"
  by (simp_all add: factor_def FACTORS_def)

lemma cost_simps:
  "energy_cost ''electricity'' = 8.5" "energy_cost ''diesel'' = 95"
  "energy_cost ''petrol'' = 105"
  by (simp_all add: energy_cost_def ENERGY_COSTS_def)

subsection \<open>Rounding\<close>



lemma round_half_even_nonneg: "0 \<le> x \<Longrightarrow> 0 \<le> round_half_even x"
  by (auto simp: round_half_even_def Let_def)

lemma round_half_even_nonpos: "x \<le> 0 \<Longrightarrow> round_half_even x \<le> 0"
  by (auto simp: round_half_even_def Let_def)

lemma py_round_nonneg: "0 \<le> x \<Longrightarrow> 0 \<le> py_round x n"
  by (simp add: py_round_def round_half_even_nonneg)

lemma py_round_nonpos: "x \<le> 0 \<Longrightarrow> py_round x n \<le> 0"
  by (simp add: py_round_def round_half_even_nonpos mult_le_0_iff divide_le_0_iff)


subsection \<open>Sorting with the combined scenario\<close>



lemmas block_defs = solar_scenario_def ev_scenario_def efficiency_scenario_def
  waste_scenario_def renewable_scenario_def material_scenario_def



lemma scope3_raw_materials_eq:
  "scope3_raw_materials d =
     steel d * 1.85 + cement d * 0.90 + aluminum d * 12.7 + plastic d * 2.70
       + paper d * 0.94 + glass d * 0.85"
  by (simp add: scope3_raw_materials_def scope3_def factor_simps)




subsection \<open>Unfolding the model at a concrete input\<close>

lemmas scen_defs = block_defs solar_offset_pct_def solar_kwh_def solar_emission_reduction_def
  solar_energy_savings_def system_size_kw_def solar_investment_def solar_roi_def
  vehicle_fuel_cost_def ev_transition_pct_def ev_fuel_savings_def
  ev_emission_reduction_def vehicles_to_replace_def ev_investment_def ev_roi_def
  efficiency_savings_pct_def kwh_saved_def efficiency_emission_reduction_def
  efficiency_cost_savings_def efficiency_investment_def efficiency_roi_def
  waste_reduction_pct_def waste_diverted_def waste_emission_reduction_def
  waste_cost_savings_def waste_investment_def waste_roi_def
  target_renewable_def additional_renewable_pct_def additional_renewable_kwh_def
  renewable_emission_reduction_def green_premium_def renewable_carbon_savings_def
  net_renewable_savings_def
  material_efficiency_pct_def material_emission_reduction_def
  material_cost_savings_def material_investment_def material_roi_def
  individual_scenarios_def

lemmas eval_defs = scenarios_of_def calculate_scenarios_def scope1_def scope2_def scope3_def
  zero_input_def scen_defs factor_simps cost_simps CARBON_PRICE_def
  grid_electricity_def py_round_def round_half_even_def Let_def format_f_def str_int_def
  str_nat.simps
  combined_scenario_def total_investment_def total_savings_def total_carbon_reduction_def
  sort_scenarios_def get_is_combined_def

subsection \<open>Signs of the scope totals\<close>

lemma scope1_total_nonneg: "nonneg_input d \<Longrightarrow> 0 \<le> scope1_total d"
  by (simp add: nonneg_input_def scope1_total_def scope1_def factor_simps)

lemma scope2_total_nonneg:
  assumes "nonneg_input d" "renewable d \<le> 100"
  shows "0 \<le> scope2_total d"
proof -
  have "0 \<le> electricity d" using assms(1) by (simp add: nonneg_input_def)
  moreover have "0 \<le> 1 - renewable d / 100" using assms(2) by simp
  ultimately have "0 \<le> grid_electricity d" by (simp add: grid_electricity_def)
  then show ?thesis by (simp add: scope2_total_def factor_simps)
qed

lemma scope3_total_nonneg: "nonneg_input d \<Longrightarrow> 0 \<le> scope3_total d"
  by (simp add: nonneg_input_def scope3_total_def scope3_def factor_simps)

subsection \<open>Dictionaries with distinct keys\<close>

lemma update_fresh: "k \<notin> fst ` set al \<Longrightarrow> AList.update k v al = al @ [(k, v)]"
  by (induction al) auto

lemma dict_update_distinct:
  "distinct (map fst (m @ kvs)) \<Longrightarrow> dict_update m kvs = m @ kvs"
proof (induction kvs arbitrary: m)
  case Nil
  then show ?case by (simp add: dict_update_def)
next
  case (Cons kv kvs)
  obtain k v where kv: "kv = (k, v)" by (cases kv)
  from Cons.prems have fresh: "k \<notin> fst ` set m" and d: "distinct (map fst ((m @ [(k, v)]) @ kvs))"
    by (auto simp: kv)
  have "dict_update m (kv # kvs) = dict_update (AList.update k v m) kvs"
    by (simp add: dict_update_def kv)
  also have "\<dots> = dict_update (m @ [(k, v)]) kvs" by (simp add: update_fresh [OF fresh])
  also have "\<dots> = (m @ [(k, v)]) @ kvs" by (rule Cons.IH [OF d])
  finally show ?case by (simp add: kv)
qed

lemma fst_rounded_comp: "fst \<circ> (\<lambda>(k, v). (k, g v)) = fst"
  by auto

lemma map_fst_rounded:
  "map fst (map (\<lambda>(k, v). (k, g v)) xs) = map fst xs"
  by (simp add: fst_rounded_comp)

lemma positive_rounded_distinct:
  assumes "distinct (map fst sc)"
  shows "positive_rounded sc = map (\<lambda>(k, v). (k, py_round v 2)) (filter (\<lambda>(k, v). v > 0) sc)"
proof -
  have "distinct (map fst (filter (\<lambda>(k, v). v > 0) sc))"
    using assms by (rule distinct_map_filter)
  then have "distinct (map fst ([] @ map (\<lambda>(k, v). (k, py_round v 2)) (filter (\<lambda>(k, v). v > 0) sc)))"
    by (simp add: fst_rounded_comp)
  from dict_update_distinct [OF this] show ?thesis
    by (simp add: positive_rounded_def)
qed

lemma scope_keys_distinct: "distinct (map fst (scope1 d @ scope2 d @ scope3 d))"
  by (simp add: scope1_def scope2_def scope3_def)

lemma by_source_eq:
  "by_source d =
     map (\<lambda>(k, v). (k, py_round v 2))
       (filter (\<lambda>(k, v). v > 0) (scope1 d @ scope2 d @ scope3 d))"
proof -
  define A1 where "A1 = map (\<lambda>(k, v). (k, py_round v 2)) (filter (\<lambda>(k, v). v > 0) (scope1 d))"
  define A2 where "A2 = map (\<lambda>(k, v). (k, py_round v 2)) (filter (\<lambda>(k, v). v > 0) (scope2 d))"
  define A3 where "A3 = map (\<lambda>(k, v). (k, py_round v 2)) (filter (\<lambda>(k, v). v > 0) (scope3 d))"
  have d1: "distinct (map fst (scope1 d))" and d2: "distinct (map fst (scope2 d))"
    and d3: "distinct (map fst (scope3 d))"
    using scope_keys_distinct [of d] by simp_all
  have "distinct (map fst (filter (\<lambda>(k, v). v > 0) (scope1 d @ scope2 d @ scope3 d)))"
    by (rule distinct_map_filter) (rule scope_keys_distinct)
  then have "distinct (map fst (map (\<lambda>(k, v). (k, py_round v 2))
      (filter (\<lambda>(k, v). v > 0) (scope1 d @ scope2 d @ scope3 d))))"
    by (simp only: map_fst_rounded)
  then have all: "distinct (map fst ((A1 @ A2) @ A3))"
    by (simp only: A1_def A2_def A3_def filter_append map_append append_assoc)
  then have a12: "distinct (map fst (A1 @ A2))" and a1: "distinct (map fst ([] @ A1))"
    by auto
  have "by_source d = dict_update (dict_update (dict_update [] A1) A2) A3"
    by (simp only: by_source_def positive_rounded_distinct [OF d1]
        positive_rounded_distinct [OF d2] positive_rounded_distinct [OF d3] A1_def A2_def A3_def)
  also have "dict_update [] A1 = A1" using dict_update_distinct [OF a1] by simp
  also have "dict_update A1 A2 = A1 @ A2" by (rule dict_update_distinct [OF a12])
  also have "dict_update (A1 @ A2) A3 = (A1 @ A2) @ A3" by (rule dict_update_distinct [OF all])
  finally show ?thesis by (simp add: A1_def A2_def A3_def)
qed

subsection \<open>Sums over the sorted list, and rounding a sum of rounded amounts\<close>











subsection \<open>The order of the sorted list\<close>




subsection \<open>Which scenarios are emitted\<close>


















subsection \<open>The guards of payback and ROI\<close>












subsection \<open>Coercion\<close>

lemma safe_float_value:
  assumes "\<forall>s e. py_float s = Inl e \<longrightarrow> e = ValueError \<or> e = TypeError"
  shows "safe_float py_float v dflt =
     Inr (case v of None \<Rightarrow> dflt
          | Some s \<Rightarrow> if s = [] then dflt
                     else (case py_float s of Inr x \<Rightarrow> x | Inl e \<Rightarrow> dflt))"
  using assms by (auto simp: safe_float_def split: option.splits sum.splits)

lemma safe_float_default:
  assumes "\<forall>s e. py_float s = Inl e \<longrightarrow> e = ValueError \<or> e = TypeError"
    and "v = None \<or> v = Some [] \<or> (\<exists>s. v = Some s \<and> isl (py_float s))"
  shows "safe_float py_float v dflt = Inr dflt"
  using assms(2) unfolding safe_float_value [OF assms(1)]
  by (auto split: option.splits sum.splits)

lemma read_form_total:
  assumes "\<forall>s e. py_float s = Inl e \<longrightarrow> e = ValueError \<or> e = TypeError"
  shows "\<exists>d. read_form py_float form = Inr d"
  by (simp add: read_form_def bind_err_def safe_float_value [OF assms])

lemma read_form_defaults:
  assumes "\<forall>s e. py_float s = Inl e \<longrightarrow> e = ValueError \<or> e = TypeError"
    and "\<forall>k. form k = None \<or> form k = Some [] \<or> (\<exists>s. form k = Some s \<and> isl (py_float s))"
  shows "read_form py_float form = Inr zero_input"
  unfolding read_form_def bind_err_def
  by (simp add: safe_float_default [OF assms(1) assms(2) [rule_format]] zero_input_def)

lemma float_of_digits_raises:
  "\<forall>s e. float_of_digits s = Inl e \<longrightarrow> e = ValueError \<or> e = TypeError"
  by (simp add: float_of_digits_def split: option.splits if_splits)

subsection \<open>When the hotspot computation raises\<close>

lemma map_err_total:
  "\<forall>x\<in>set xs. f x = Inr (g x) \<Longrightarrow> map_err f xs = Inr (map g xs)"
  by (induction xs) simp_all

lemma hotspots_nonzero_total:
  assumes "total d \<noteq> 0"
  shows "hotspots d =
     Inr (take 5 (sort_key (\<lambda>x. - emission x)
       (map (\<lambda>kv. \<lparr>source = fst kv, emission = snd kv, percent = snd kv / total d * 100\<rparr>)
          (by_source d))))"
proof -
  have "map_err (hotspot_entry (total d)) (by_source d)
      = Inr (map (\<lambda>kv. \<lparr>source = fst kv, emission = snd kv, percent = snd kv / total d * 100\<rparr>)
          (by_source d))"
    by (rule map_err_total) (simp add: hotspot_entry_def py_div_def bind_err_def assms)
  then show ?thesis by (simp add: hotspots_def bind_err_def)
qed

lemma hotspots_empty: "by_source d = [] \<Longrightarrow> hotspots d = Inr []"
  by (simp add: hotspots_def bind_err_def)

lemma hotspots_zero_total:
  assumes "total d = 0" "by_source d \<noteq> []"
  shows "hotspots d = Inl ZeroDivisionError"
proof -
  from assms(2) obtain kv kvs where "by_source d = kv # kvs" by (cases "by_source d") auto
  then show ?thesis
    by (simp add: hotspots_def bind_err_def hotspot_entry_def py_div_def assms(1))
qed

section \<open>The claims\<close>

subsection \<open>C10: the combined scenario is always there\<close>


subsection \<open>C1: the scope totals are not negative\<close>

text \<open>
  C1, as stated: for every activity input with non-negative fields, whatever the
  renewable percentage, the three scope subtotals and the grand total are at least 0.
  It fails above 100 percent: with electricity 100 and renewable 200 the grid share
  \<open>1 - renewable / 100\<close> is \<open>-1\<close>, and scope 2 and the grand total are \<open>-0.071\<close>.
\<close>

theorem C1_renewable_above_100_counterexample:
  "nonneg_input over_renewable_input
   \<and> scope2_total over_renewable_input = - 0.071 \<and> total over_renewable_input = - 0.071
   \<and> scope2_total over_renewable_input < 0 \<and> total over_renewable_input < 0"
  by (simp add: nonneg_input_def over_renewable_input_def zero_input_def total_def
      scope1_total_def scope1_def scope2_total_def grid_electricity_def scope3_total_def
      scope3_def factor_simps)

text \<open>
  C1, amended: for every activity input with non-negative fields and a renewable
  percentage of at most 100, the three scope subtotals and the grand total are at
  least 0.
\<close>

theorem C1_scope_totals_nonneg:
  assumes "nonneg_input d" and "renewable d \<le> 100"
  shows "0 \<le> scope1_total d \<and> 0 \<le> scope2_total d \<and> 0 \<le> scope3_total d \<and> 0 \<le> total d"
  using scope1_total_nonneg [OF assms(1)] scope2_total_nonneg [OF assms]
    scope3_total_nonneg [OF assms(1)]
  by (simp add: total_def)

theorem C1_scope_totals_nonneg_witness:
  "nonneg_input electricity_only_input \<and> renewable electricity_only_input \<le> 100
   \<and> 0 \<le> scope1_total electricity_only_input \<and> 0 \<le> scope2_total electricity_only_input
   \<and> 0 \<le> scope3_total electricity_only_input \<and> 0 \<le> total electricity_only_input
   \<and> total electricity_only_input = 7.1"
proof -
  have h1: "nonneg_input electricity_only_input"
    by (simp add: nonneg_input_def electricity_only_input_def zero_input_def)
  have h2: "renewable electricity_only_input \<le> 100"
    by (simp add: electricity_only_input_def zero_input_def)
  have v: "total electricity_only_input = 7.1"
    by (simp add: total_def scope1_total_def scope1_def scope3_total_def scope3_def
        scope2_total_def grid_electricity_def electricity_only_input_def zero_input_def
        factor_simps)
  show ?thesis using h1 h2 v C1_scope_totals_nonneg [OF h1 h2] by simp
qed

subsection \<open>C8: the worked example\<close>

text \<open>
  C8. At electricity 10000 and every other field 0 (production 1): scope 2 is
  \<open>10000 \<times> 0.00071 = 7.1\<close>, also after rounding in the result; \<^verbatim>\<open>by_source\<close> has the one
  key \<^verbatim>\<open>Grid Electricity\<close>; the scenario list is Energy Efficiency, Rooftop Solar, Green
  Energy Procurement and the combined scenario, so that EV Fleet, Waste Diversion and
  Material Efficiency are absent.
\<close>

theorem C8_electricity_only_example:
  "scope2_total electricity_only_input = 10000 * 0.00071
   \<and> scope2_total electricity_only_input = 7.1
   \<and> map_sum id res_scope2 (index_post electricity_only_input) = Inr 7.1
   \<and> map fst (by_source electricity_only_input) = [''Grid Electricity'']
   \<and> map_sum id (map name) (scenarios_of electricity_only_input) =
       Inr [''Energy Efficiency (15% reduction)'', ''Rooftop Solar (40% offset)'',
            ''Green Energy Procurement (30% renewable)'',
            ''Combined Optimization (All Measures)'']
   \<and> map_sum id (emitted ''Rooftop Solar'') (scenarios_of electricity_only_input) = Inr True
   \<and> map_sum id (emitted ''Energy Efficiency'') (scenarios_of electricity_only_input) = Inr True
   \<and> map_sum id (emitted ''Green Energy Procurement'') (scenarios_of electricity_only_input)
       = Inr True
   \<and> map_sum id (emitted ''EV Fleet'') (scenarios_of electricity_only_input) = Inr False
   \<and> map_sum id (emitted ''Waste Diversion'') (scenarios_of electricity_only_input) = Inr False
   \<and> map_sum id (emitted ''Material Efficiency'') (scenarios_of electricity_only_input)
       = Inr False"
  by (simp add: electricity_only_input_def eval_defs scope2_total_def grid_electricity_def
      by_source_def positive_rounded_def dict_update_def emitted_def index_post_def
      bind_err_def find_combined_def hotspots_def hotspot_entry_def py_div_def total_def
      scope1_total_def scope3_total_def)

subsection \<open>C3: the per-source breakdown\<close>

text \<open>
  C3, as stated: \<^verbatim>\<open>by_source\<close> holds exactly the categories whose computed value is
  positive, each rounded to 2 decimals, and never a zero-valued entry. The test
  \<^verbatim>\<open>v > 0\<close> is on the value before rounding: one litre of diesel gives 0.00268, which is
  kept and stored as 0.
\<close>

theorem C3_zero_entry_counterexample:
  "map_of (scope1 small_diesel_input) ''Diesel'' = Some 0.00268
   \<and> by_source small_diesel_input = [(''Diesel'', 0)]"
  by (simp add: small_diesel_input_def by_source_def positive_rounded_def dict_update_def
      eval_defs)

text \<open>
  C3, amended: \<^verbatim>\<open>by_source\<close> holds exactly the categories of scopes 1 to 3 whose computed
  value is strictly positive, in the order of the scopes, each key once and each value
  rounded to 2 decimals; a stored value is never negative, and it is 0 when the computed
  value is positive but rounds to 0.
\<close>

theorem C3_by_source_positive_rounded:
  "by_source d =
     map (\<lambda>(k, v). (k, py_round v 2))
       (filter (\<lambda>(k, v). v > 0) (scope1 d @ scope2 d @ scope3 d))
   \<and> distinct (map fst (by_source d))
   \<and> (\<forall>(k, v) \<in> set (by_source d). 0 \<le> v)"
proof (intro conjI)
  show "by_source d = map (\<lambda>(k, v). (k, py_round v 2))
       (filter (\<lambda>(k, v). v > 0) (scope1 d @ scope2 d @ scope3 d))"
    by (rule by_source_eq)
  show "distinct (map fst (by_source d))"
    unfolding by_source_eq map_fst_rounded
    by (rule distinct_map_filter) (rule scope_keys_distinct)
  show "\<forall>(k, v) \<in> set (by_source d). 0 \<le> v"
    unfolding by_source_eq by (auto intro: py_round_nonneg)
qed

theorem C3_by_source_positive_rounded_witness:
  "by_source electricity_only_input = [(''Grid Electricity'', 7.1)]
   \<and> (''Grid Electricity'', 7.1) \<in> set (by_source electricity_only_input)
   \<and> (0::real) \<le> 7.1"
proof -
  have e: "map (\<lambda>(k, v). (k, py_round v 2))
       (filter (\<lambda>(k, v). v > 0) (scope1 electricity_only_input
          @ scope2 electricity_only_input @ scope3 electricity_only_input))
     = [(''Grid Electricity'', 7.1)]"
    by (simp add: electricity_only_input_def eval_defs)
  from C3_by_source_positive_rounded [of electricity_only_input]
  have b: "by_source electricity_only_input = [(''Grid Electricity'', 7.1)]"
    and p: "\<forall>(k, v) \<in> set (by_source electricity_only_input). 0 \<le> v"
    unfolding e by simp_all
  from p b have "(0::real) \<le> 7.1" by simp
  with b show ?thesis by simp
qed

subsection \<open>C4: the hotspot percentage\<close>

text \<open>
  C4. The claim: the percentage of a hotspot is \<open>emission / total \<times> 100\<close>, and a grand
  total of 0 is guarded and reported as 0 percent. The source divides by \<^verbatim>\<open>total\<close>
  without a guard, unlike its other divisions (\<^verbatim>\<open>intensity\<close>, \<^verbatim>\<open>payback_years\<close>,
  \<^verbatim>\<open>roi_percent\<close>). With diesel 71, electricity 268 and renewable 200 the diesel emission
  0.19028 is cancelled by a scope 2 of -0.19028: the total is 0, \<^verbatim>\<open>by_source\<close> has the
  diesel entry, and the request ends in \<^verbatim>\<open>ZeroDivisionError\<close>. (Lemmas
  \<open>hotspots_nonzero_total\<close>, \<open>hotspots_empty\<close> and \<open>hotspots_zero_total\<close>: the
  percentage is as claimed when the total is not 0, and a total of 0 raises as soon as
  \<^verbatim>\<open>by_source\<close> has an entry.)
\<close>

theorem C4_zero_total_raises:
  "total cancelling_input = 0
   \<and> by_source cancelling_input = [(''Diesel'', 0.19)]
   \<and> hotspots cancelling_input = Inl ZeroDivisionError
   \<and> index_post cancelling_input = Inl ZeroDivisionError"
  by (simp add: cancelling_input_def by_source_def positive_rounded_def dict_update_def
      eval_defs index_post_def bind_err_def find_combined_def hotspots_def hotspot_entry_def
      py_div_def total_def scope1_total_def scope2_total_def scope3_total_def)

subsection \<open>C6: the combined scenario sums the others\<close>


subsection \<open>C5: the order of the list\<close>




subsection \<open>C2: the applicability tests\<close>




subsection \<open>C7: payback and ROI\<close>




subsection \<open>C9: input coercion\<close>

text \<open>
  C9. Python's \<^verbatim>\<open>float\<close> applied to a string returns a number or raises \<^verbatim>\<open>ValueError\<close>
  (\<^verbatim>\<open>TypeError\<close> is for a value that is not a string or a number): that is the hypothesis
  on the parameter. Then \<^verbatim>\<open>safe_float\<close> returns a number for every form value and never
  raises: the default for an absent value, an empty string and a string that \<^verbatim>\<open>float\<close>
  rejects, the parsed number otherwise. Building \<^verbatim>\<open>data\<close> from a form never raises, and
  a form whose values are all absent, empty or rejected gives 0 for every field and 1
  for production.
\<close>

theorem C9_coercion_never_raises:
  assumes "\<forall>s e. py_float s = Inl e \<longrightarrow> e = ValueError \<or> e = TypeError"
  shows "(\<exists>x. safe_float py_float v dflt = Inr x)
    \<and> (v = None \<or> v = Some [] \<or> (\<exists>s. v = Some s \<and> isl (py_float s))
         \<longrightarrow> safe_float py_float v dflt = Inr dflt)
    \<and> (\<forall>s x. s \<noteq> [] \<and> py_float s = Inr x \<longrightarrow> safe_float py_float (Some s) dflt = Inr x)
    \<and> (\<exists>d. read_form py_float form = Inr d)
    \<and> ((\<forall>k. form k = None \<or> form k = Some [] \<or> (\<exists>s. form k = Some s \<and> isl (py_float s)))
         \<longrightarrow> read_form py_float form = Inr zero_input)"
proof (intro conjI impI allI)
  show "\<exists>x. safe_float py_float v dflt = Inr x"
    unfolding safe_float_value [OF assms] by blast
  show "safe_float py_float v dflt = Inr dflt"
    if "v = None \<or> v = Some [] \<or> (\<exists>s. v = Some s \<and> isl (py_float s))"
    using safe_float_default [OF assms that] .
  show "safe_float py_float (Some s) dflt = Inr x" if "s \<noteq> [] \<and> py_float s = Inr x" for s x
    using that by (simp add: safe_float_def)
  show "\<exists>d. read_form py_float form = Inr d" by (rule read_form_total [OF assms])
  show "read_form py_float form = Inr zero_input"
    if "\<forall>k. form k = None \<or> form k = Some [] \<or> (\<exists>s. form k = Some s \<and> isl (py_float s))"
    using read_form_defaults [OF assms that] .
qed

theorem C9_coercion_never_raises_witness:
  "safe_float float_of_digits None 1 = Inr 1
   \<and> safe_float float_of_digits (Some []) 0 = Inr 0
   \<and> float_of_digits ''12a'' = Inl ValueError
   \<and> safe_float float_of_digits (Some ''12a'') 0 = Inr 0
   \<and> safe_float float_of_digits (Some ''250'') 0 = Inr 250
   \<and> read_form float_of_digits Map.empty = Inr zero_input
   \<and> read_form float_of_digits
        (map_of [(''electricity'', ''10000''), (''diesel'', ''12a''), (''petrol'', [])])
       = Inr electricity_only_input"
proof -
  note c = C9_coercion_never_raises [OF float_of_digits_raises]
  have a: "float_of_digits ''12a'' = Inl ValueError" by (simp add: float_of_digits_def)
  have b: "float_of_digits ''250'' = Inr 250" by (simp add: float_of_digits_def)
  have 1: "safe_float float_of_digits None 1 = Inr 1"
    using c [where v = None and dflt = 1 and form = Map.empty] by simp
  have 2: "safe_float float_of_digits (Some []) 0 = Inr 0"
    using c [where v = "Some []" and dflt = 0 and form = Map.empty] by simp
  have 3: "safe_float float_of_digits (Some ''12a'') 0 = Inr 0"
    using c [where v = "Some ''12a''" and dflt = 0 and form = Map.empty] a by simp
  have 4: "safe_float float_of_digits (Some ''250'') 0 = Inr 250"
    using c [where v = None and dflt = 0 and form = Map.empty] b by simp
  have 5: "read_form float_of_digits Map.empty = Inr zero_input"
    using c [where v = None and dflt = 0 and form = Map.empty] by simp
  have 6: "read_form float_of_digits
        (map_of [(''electricity'', ''10000''), (''diesel'', ''12a''), (''petrol'', [])])
       = Inr electricity_only_input"
    by (simp add: read_form_def bind_err_def safe_float_def float_of_digits_def
        electricity_only_input_def zero_input_def)
  from 1 2 a 3 4 5 6 show ?thesis by (intro conjI)
qed


end
